theory Spec2Isabelle
  imports Main "HOL-Library.Word"
begin

section \<open>Colors (src/tetris/colors.hpp)\<close>

text \<open>
  \<^verbatim>\<open>enum class Color : uint8_t { Red, White, Magenta, Blue, Green, Brown, Cyan, Background };\<close>
  The scoped enumeration is a datatype with one constructor per enumerator, in the order
  of the header.
\<close>

type_synonym uint8_t = "8 word"

datatype Color = Red | White | Magenta | Blue | Green | Brown | Cyan | Background

text \<open>
  The value of the underlying type \<^verbatim>\<open>uint8_t\<close>: no enumerator has an initialiser, so they
  are numbered from zero in the order of declaration.
\<close>

fun Color_val :: "Color \<Rightarrow> uint8_t" where
  "Color_val Red = 0"
| "Color_val White = 1"
| "Color_val Magenta = 2"
| "Color_val Blue = 3"
| "Color_val Green = 4"
| "Color_val Brown = 5"
| "Color_val Cyan = 6"
| "Color_val Background = 7"

text \<open>
  The built-in \<^verbatim>\<open>operator==\<close> of a scoped enumeration compares the underlying values.
\<close>

definition Color_eq :: "Color \<Rightarrow> Color \<Rightarrow> bool" where
  "Color_eq a b \<longleftrightarrow> Color_val a = Color_val b"

section \<open>The board (src/tetris/board.hpp and its constructor)\<close>

text \<open>
  \<^verbatim>\<open>template <size_t width, size_t height> class Board\<close>. The dimensions are values of
  \<^verbatim>\<open>size_t\<close>, taken here as the 64-bit unsigned integers of an LP64 platform; their
  arithmetic wraps around.
\<close>

type_synonym size_t = "64 word"

text \<open>
  The only data member is \<^verbatim>\<open>std::array<Color, width * height> grid\<close>, held by value.
\<close>

record Board =
  grid :: "Color list"

text \<open>
  The template argument \<^verbatim>\<open>width * height\<close> of the array type: a product of two
  \<^verbatim>\<open>size_t\<close> values, computed in \<^verbatim>\<open>size_t\<close>.
\<close>

definition grid_size :: "size_t \<Rightarrow> size_t \<Rightarrow> nat" where
  "grid_size width height = unat (width * height)"

text \<open>
  The constructor has no member initialiser for \<^verbatim>\<open>grid\<close>, so on entry to its body the
  array is default-initialised: it has its \<open>grid_size\<close> cells, and each cell holds an
  indeterminate value. The function \<open>prior\<close> gives whatever the storage held before: cell
  \<open>i\<close> starts as \<open>prior i\<close>.
\<close>

definition Board_storage :: "size_t \<Rightarrow> size_t \<Rightarrow> (nat \<Rightarrow> Color) \<Rightarrow> Board" where
  "Board_storage width height prior = \<lparr>grid = map prior [0..<grid_size width height]\<rparr>"

text \<open>
  The body of the constructor,
  \<^verbatim>\<open>for (auto& cell : grid) { cell = Color::Background; }\<close>
  is the iterator loop
  \<^verbatim>\<open>for (auto it = grid.begin(), end = grid.end(); it != end; ++it) *it = Color::Background;\<close>
  Iterators are positions in the array. The loop test is \<^verbatim>\<open>it != end\<close>, so the
  loop is a partial function: \<open>None\<close> stands for a run that never leaves the loop.
  A write through an iterator outside the array would be undefined behaviour in C++, where
  the list update of HOL changes nothing; \<open>fill_cells_returns\<close> below covers the runs
  that start inside the array, as the constructor's does: there every write is at a
  position before \<open>end\<close>, which is at most the length of the array.
\<close>

partial_function (option) fill_cells :: "nat \<Rightarrow> nat \<Rightarrow> Color list \<Rightarrow> Color list option" where
  "fill_cells it end g =
     (if it \<noteq> end then fill_cells (Suc it) end (g[it := Background]) else Some g)"

declare fill_cells.simps [code]

text \<open>
  \<^verbatim>\<open>Board<width, height>::Board()\<close>: the default-initialised object, then the loop from
  \<^verbatim>\<open>grid.begin()\<close> (position 0) to \<^verbatim>\<open>grid.end()\<close> (the number of cells).
\<close>

definition Board_ctor :: "size_t \<Rightarrow> size_t \<Rightarrow> (nat \<Rightarrow> Color) \<Rightarrow> Board option" where
  "Board_ctor width height prior =
     (let this = Board_storage width height prior in
      case fill_cells 0 (length (grid this)) (grid this) of
        None \<Rightarrow> None
      | Some g \<Rightarrow> Some (this\<lparr>grid := g\<rparr>))"

section \<open>A grid with run-time dimensions (specification, sections 4.1 and 9)\<close>

text \<open>
  This part follows the words of the specification, not the source; it is what the
  constructor above is compared with. The specification allows a reimplementation that
  carries width and height as run-time fields of a single type, built by
  \<^verbatim>\<open>Construct(width, height)\<close>, whose postcondition is: the backing sequence has exactly
  width times height elements, every element equal to Background. Width and height are
  positive integers there, so they are natural numbers here and the product is the
  exact one.
\<close>

record spec_Grid =
  spec_width :: nat
  spec_height :: nat
  spec_cells :: "Color list"

definition spec_Construct :: "nat \<Rightarrow> nat \<Rightarrow> spec_Grid" where
  "spec_Construct width height =
     \<lparr>spec_width = width, spec_height = height,
      spec_cells = replicate (width * height) Background\<rparr>"

section \<open>The fill loop\<close>

lemma fill_cells_done: "fill_cells end end g = Some g"
  by (subst fill_cells.simps) simp

lemma fill_cells_step:
  "it \<noteq> end \<Longrightarrow> fill_cells it end g = fill_cells (Suc it) end (g[it := Background])"
  by (subst fill_cells.simps) simp

text \<open>
  Started at a position not after \<open>end\<close>, inside the array, the loop returns: the cells
  from \<open>it\<close> up to \<open>end\<close> hold \<open>Background\<close> and the others are as before.
\<close>

lemma fill_cells_returns:
  "it \<le> end \<Longrightarrow> end \<le> length g \<Longrightarrow>
   fill_cells it end g = Some (take it g @ replicate (end - it) Background @ drop end g)"
proof (induction "end - it" arbitrary: it g)
  case 0
  then have "it = end" by simp
  then show ?case by (simp add: fill_cells_done)
next
  case (Suc n)
  then have lt: "it < end" and len: "it < length g" by simp_all
  have n: "n = end - Suc it" using Suc.hyps(2) by simp
  have "fill_cells it end g = fill_cells (Suc it) end (g[it := Background])"
    using lt by (simp add: fill_cells_step)
  also have "\<dots> = Some (take (Suc it) (g[it := Background]) @
      replicate (end - Suc it) Background @ drop end (g[it := Background]))"
    using Suc.hyps(1) [OF n] lt Suc.prems(2) by simp
  also have "take (Suc it) (g[it := Background]) = take it g @ [Background]"
    using len by (simp add: take_Suc_conv_app_nth)
  also have "drop end (g[it := Background]) = drop end g"
    using lt by simp
  also have "(take it g @ [Background]) @ replicate (end - Suc it) Background @ drop end g =
      take it g @ replicate (end - it) Background @ drop end g"
    using lt by (simp add: Suc_diff_Suc replicate_Suc [symmetric] del: replicate_Suc)
  finally show ?case .
qed

lemma fill_cells_whole: "fill_cells 0 (length g) g = Some (replicate (length g) Background)"
  using fill_cells_returns [of 0 "length g" g] by simp

lemma Board_ctor_returns:
  "Board_ctor width height prior = Some \<lparr>grid = replicate (grid_size width height) Background\<rparr>"
  by (simp add: Board_ctor_def Board_storage_def fill_cells_whole)

lemma grid_size_mod: "grid_size W H = (unat W * unat H) mod 2 ^ 64"
  by (simp add: grid_size_def unat_word_ariths)

lemma grid_size_exact: "unat W * unat H < 2 ^ 64 \<Longrightarrow> grid_size W H = unat W * unat H"
  by (simp add: grid_size_mod)

lemma grid_size_zero: "W = 0 \<or> H = 0 \<Longrightarrow> grid_size W H = 0"
  by (auto simp: grid_size_def)

section \<open>The colors\<close>

lemma Color_UNIV:
  "(UNIV :: Color set) = {Red, White, Magenta, Blue, Green, Brown, Cyan, Background}"
  using Color.exhaust by auto

lemma Color_eq_iff: "Color_eq a b \<longleftrightarrow> a = b"
  by (cases a; cases b; simp add: Color_eq_def)

text \<open>
  C3. The type Color has exactly eight values, the seven playfield colors Red, White,
  Magenta, Blue, Green, Brown, Cyan and the sentinel Background: the eight are all of the
  type, and they are pairwise different. Comparing Background for equality with any of
  the seven playfield colors gives false, as values of the type and through the
  underlying values that \<^verbatim>\<open>operator==\<close> compares.
\<close>

theorem Color_eight_variants:
  "(UNIV :: Color set) = {Red, White, Magenta, Blue, Green, Brown, Cyan, Background} \<and>
   distinct [Red, White, Magenta, Blue, Green, Brown, Cyan, Background] \<and>
   card (UNIV :: Color set) = 8 \<and>
   Background \<notin> {Red, White, Magenta, Blue, Green, Brown, Cyan} \<and>
   \<not> Color_eq Background Red \<and> \<not> Color_eq Background White \<and>
   \<not> Color_eq Background Magenta \<and> \<not> Color_eq Background Blue \<and>
   \<not> Color_eq Background Green \<and> \<not> Color_eq Background Brown \<and>
   \<not> Color_eq Background Cyan"
proof -
  have "card (UNIV :: Color set) = 8"
    by (subst Color_UNIV) simp
  then show ?thesis
    by (simp add: Color_UNIV [symmetric] Color_eq_iff)
qed

section \<open>The constructed board\<close>

text \<open>
  C1. For every width W > 0 and height H > 0, the constructor returns a board whose
  backing sequence has exactly as many cells as the array type gives it, the product of
  W and H as \<^verbatim>\<open>width * height\<close> computes it, and every one of these cells equals
  Background: the element at every index below that product does, and so does every
  member of the sequence. Where the exact product of W and H is below \<open>2\<^sup>6\<^sup>4\<close> the
  number of cells is that exact product.
\<close>

theorem Board_ctor_all_Background:
  assumes "0 < W" and "0 < H"
  shows "\<exists>b. Board_ctor W H prior = Some b \<and>
           length (grid b) = unat (W * H) \<and>
           (\<forall>i<unat (W * H). grid b ! i = Background) \<and>
           (\<forall>c\<in>set (grid b). c = Background) \<and>
           (unat W * unat H < 2 ^ 64 \<longrightarrow> length (grid b) = unat W * unat H)"
proof -
  have exact: "unat W * unat H < 2 ^ 64 \<longrightarrow> grid_size W H = unat W * unat H"
    by (simp add: grid_size_exact)
  have size: "grid_size W H = unat (W * H)"
    by (simp add: grid_size_def)
  from exact show ?thesis
    by (simp add: Board_ctor_returns size)
qed

text \<open>
  C1 at width 4 and height 3, over storage that held Red everywhere: twelve cells, the
  first of them (index 0) and the last of them (index 11) Background.
\<close>

theorem Board_ctor_all_Background_witness:
  "(0::size_t) < 4 \<and> (0::size_t) < 3 \<and> unat (4::size_t) * unat (3::size_t) < 2 ^ 64 \<and>
   (\<exists>b. Board_ctor 4 3 (\<lambda>_. Red) = Some b \<and> length (grid b) = 12 \<and>
        grid b ! 0 = Background \<and> grid b ! 11 = Background)"
proof -
  obtain b where b: "Board_ctor 4 3 (\<lambda>_. Red) = Some b"
    and len: "length (grid b) = unat ((4::size_t) * 3)"
    and cells: "\<forall>i<unat ((4::size_t) * 3). grid b ! i = Background"
    using Board_ctor_all_Background [of 4 3 "\<lambda>_. Red"] by auto
  have twelve: "unat ((4::size_t) * 3) = 12" by simp
  from cells twelve have "grid b ! 0 = Background" and "grid b ! 11 = Background"
    by simp_all
  with b len twelve show ?thesis by simp
qed

text \<open>
  C2, as stated, at width and height \<open>2\<^sup>3\<^sup>2\<close>: both are positive, the exact product is
  \<open>2\<^sup>6\<^sup>4\<close>, and the constructed grid has no element at all, since the product computed
  in \<^verbatim>\<open>size_t\<close> is 0.
\<close>

theorem Board_grid_length_counterexample:
  "(0::size_t) < 4294967296 \<and>
   map_option (\<lambda>b. length (grid b)) (Board_ctor 4294967296 4294967296 (\<lambda>_. Red)) = Some 0 \<and>
   unat (4294967296::size_t) * unat (4294967296::size_t) = 18446744073709551616"
proof -
  have "Board_ctor 4294967296 4294967296 (\<lambda>_. Red) = Some \<lparr>grid = []\<rparr>"
    by code_simp
  then show ?thesis by simp
qed

text \<open>
  C2, amended. For all positive W and H whose exact product is below \<open>2\<^sup>6\<^sup>4\<close> (it is a
  value of \<^verbatim>\<open>size_t\<close>), constructing the board yields a backing sequence of exactly W
  times H elements.
\<close>

theorem Board_grid_length_exact:
  assumes "0 < W" and "0 < H" and "unat W * unat H < 2 ^ 64"
  shows "\<exists>b. Board_ctor W H prior = Some b \<and> length (grid b) = unat W * unat H"
  using assms by (simp add: Board_ctor_returns grid_size_exact)

text \<open>The amended C2 at the usual playfield, width 10 and height 20: 200 cells.\<close>

theorem Board_grid_length_exact_witness:
  "(0::size_t) < 10 \<and> (0::size_t) < 20 \<and> unat (10::size_t) * unat (20::size_t) < 2 ^ 64 \<and>
   (\<exists>b. Board_ctor 10 20 (\<lambda>_. Red) = Some b \<and> length (grid b) = 200)"
  using Board_grid_length_exact [of 10 20 "\<lambda>_. Red"] by simp

text \<open>
  C4. Construction has no failure path: the constructor checks nothing and has no error
  result, and for all positive W and H its loop is left and a board is returned.
\<close>

theorem Board_ctor_no_failure:
  assumes "0 < W" and "0 < H"
  shows "\<exists>b. Board_ctor W H prior = Some b"
  by (simp add: Board_ctor_returns)

text \<open>C4 at width 7 and height 5.\<close>

theorem Board_ctor_no_failure_witness:
  "(0::size_t) < 7 \<and> (0::size_t) < 5 \<and> (\<exists>b. Board_ctor 7 5 (\<lambda>_. Red) = Some b)"
  using Board_ctor_no_failure [of 7 5 "\<lambda>_. Red"] by simp

text \<open>
  C5. Constructing \<^verbatim>\<open>Board<4, 4>\<close> yields a sequence of exactly 16 elements, all equal
  to Background and none equal to any of the seven named piece colors; constructing
  \<^verbatim>\<open>Board<1, 1>\<close> yields the sequence of one element, Background.
\<close>

theorem Board_4_4_and_1_1:
  "(\<exists>b. Board_ctor 4 4 prior = Some b \<and> length (grid b) = 16 \<and>
        set (grid b) = {Background} \<and>
        set (grid b) \<inter> {Red, White, Magenta, Blue, Green, Brown, Cyan} = {}) \<and>
   (\<exists>b. Board_ctor 1 1 prior = Some b \<and> grid b = [Background])"
  by (simp add: Board_ctor_returns grid_size_def)

text \<open>
  C6. A board with W = 0 or H = 0 (\<^verbatim>\<open>Board<0, 0>\<close> among them) is constructed, not
  rejected: its backing sequence has no element, and the fill loop over it changes
  nothing, so the constructed board is the storage as it was.
\<close>

theorem Board_zero_dimension:
  assumes "W = 0 \<or> H = 0"
  shows "Board_ctor W H prior = Some (Board_storage W H prior) \<and>
         grid (Board_storage W H prior) = [] \<and>
         fill_cells 0 (length (grid (Board_storage W H prior))) (grid (Board_storage W H prior)) =
           Some (grid (Board_storage W H prior))"
  using assms
  by (simp add: Board_ctor_returns Board_storage_def grid_size_zero fill_cells_done)

text \<open>C6 at \<^verbatim>\<open>Board<0, 0>\<close>: the empty grid.\<close>

theorem Board_zero_dimension_witness:
  "((0::size_t) = 0 \<or> (0::size_t) = 0) \<and>
   Board_ctor 0 0 (\<lambda>_. Red) = Some \<lparr>grid = []\<rparr>"
  using Board_zero_dimension [of 0 0 "\<lambda>_. Red"]
  by (simp add: Board_storage_def grid_size_def)

text \<open>
  C7, as stated, at width and height \<open>2\<^sup>3\<^sup>2\<close>: the grid with run-time dimensions has
  \<open>2\<^sup>6\<^sup>4\<close> cells, the board of the source has none, so the two sequences differ.
\<close>

theorem spec_Construct_counterexample:
  "(0::size_t) < 4294967296 \<and>
   map_option grid (Board_ctor 4294967296 4294967296 (\<lambda>_. Red)) = Some [] \<and>
   length (spec_cells (spec_Construct (unat (4294967296::size_t)) (unat (4294967296::size_t)))) =
     18446744073709551616 \<and>
   map_option grid (Board_ctor 4294967296 4294967296 (\<lambda>_. Red)) \<noteq>
     Some (spec_cells (spec_Construct (unat (4294967296::size_t)) (unat (4294967296::size_t))))"
proof -
  have len: "length (spec_cells (spec_Construct (unat (4294967296::size_t))
      (unat (4294967296::size_t)))) = 18446744073709551616"
    by (simp add: spec_Construct_def)
  then have "spec_cells (spec_Construct (unat (4294967296::size_t))
      (unat (4294967296::size_t))) \<noteq> []"
    by auto
  moreover have "Board_ctor 4294967296 4294967296 (\<lambda>_. Red) = Some \<lparr>grid = []\<rparr>"
    by code_simp
  ultimately show ?thesis using len by simp
qed

text \<open>
  C7, amended. For all positive W and H whose exact product is below \<open>2\<^sup>6\<^sup>4\<close>, the
  board of the source and the grid with run-time dimensions hold the same sequence: W
  times H elements, all Background.
\<close>

theorem Board_refines_spec_Construct:
  assumes "0 < W" and "0 < H" and "unat W * unat H < 2 ^ 64"
  shows "\<exists>b. Board_ctor W H prior = Some b \<and>
           grid b = spec_cells (spec_Construct (unat W) (unat H)) \<and>
           length (grid b) = unat W * unat H \<and> set (grid b) = {Background}"
proof -
  from assms(1,2) have "0 < unat W * unat H"
    by (auto simp: unat_gt_0)
  with assms(3) show ?thesis
    by (simp add: Board_ctor_returns grid_size_exact spec_Construct_def)
qed

text \<open>The amended C7 at width 2 and height 3: six cells on both sides.\<close>

theorem Board_refines_spec_Construct_witness:
  "(0::size_t) < 2 \<and> (0::size_t) < 3 \<and> unat (2::size_t) * unat (3::size_t) < 2 ^ 64 \<and>
   (\<exists>b. Board_ctor 2 3 (\<lambda>_. Red) = Some b \<and> grid b = spec_cells (spec_Construct 2 3)) \<and>
   spec_cells (spec_Construct 2 3) =
     [Background, Background, Background, Background, Background, Background]"
proof -
  have "spec_cells (spec_Construct 2 3) =
      [Background, Background, Background, Background, Background, Background]"
    by code_simp
  then show ?thesis
    using Board_refines_spec_Construct [of 2 3 "\<lambda>_. Red"] by auto
qed

text \<open>
  C9. The number of elements of the backing array is the product of width and height
  computed in \<^verbatim>\<open>size_t\<close>, that is modulo \<open>2\<^sup>6\<^sup>4\<close>. When the exact product exceeds the
  largest \<^verbatim>\<open>size_t\<close> the array has fewer elements than the exact product, and the
  constructor returns all the same.
\<close>

theorem Board_grid_length_wraps:
  "\<exists>b. Board_ctor W H prior = Some b \<and>
        length (grid b) = (unat W * unat H) mod 2 ^ 64 \<and>
        (2 ^ 64 \<le> unat W * unat H \<longrightarrow> length (grid b) < unat W * unat H)"
proof -
  have "(unat W * unat H) mod 2 ^ 64 < (2::nat) ^ 64"
    by simp
  then have "2 ^ 64 \<le> unat W * unat H \<longrightarrow> (unat W * unat H) mod 2 ^ 64 < unat W * unat H"
    by linarith
  then show ?thesis
    by (simp add: Board_ctor_returns grid_size_mod)
qed

text \<open>
  C9 at width \<open>2\<^sup>6\<^sup>3 + 1\<close> and height 2: the exact product is \<open>2\<^sup>6\<^sup>4 + 2\<close>, and the
  grid has two cells.
\<close>

theorem Board_grid_length_wraps_witness:
  "(2::nat) ^ 64 \<le> unat (9223372036854775809::size_t) * unat (2::size_t) \<and>
   (\<exists>b. Board_ctor 9223372036854775809 2 (\<lambda>_. Red) = Some b \<and> length (grid b) = 2 \<and>
        length (grid b) < unat (9223372036854775809::size_t) * unat (2::size_t))"
  using Board_grid_length_wraps [of 9223372036854775809 2 "\<lambda>_. Red"] by simp

text \<open>
  C10. Construction is deterministic: the dimensions are its only input. Two runs of the
  constructor of \<^verbatim>\<open>Board<W, H>\<close>, over storage with whatever earlier contents, both
  return, and they return boards with the same grid, element for element.
\<close>

theorem Board_ctor_deterministic:
  "\<exists>b. Board_ctor W H prior = Some b \<and> Board_ctor W H prior' = Some b"
  by (simp add: Board_ctor_returns)

end
